theory Spec2Isabelle
  imports Main "HOL-Library.Sublist"
begin

section \<open>JavaScript values\<close>

text \<open>
  The application is a React component (two revisions of \<open>App.jsx\<close>: one calling the
  Gemini HTTP API directly, one calling a Firebase callable function) and the callable
  function itself (\<open>functions/index.js\<close>).  Strings are modelled as \<open>string\<close>; one
  \<open>char\<close> stands for one code unit, so the model is exact for text in the ASCII range.
  The single non-ASCII character of the template table (an en dash) is written as its
  three UTF-8 bytes.  A JavaScript string is falsy exactly when it is empty.
\<close>

definition truthy :: "string \<Rightarrow> bool" where
  "truthy s \<longleftrightarrow> s \<noteq> []"

text \<open>\<open>v || ''\<close> for a value that is a string or \<open>undefined\<close> (\<open>None\<close>).\<close>

fun or_empty :: "string option \<Rightarrow> string" where
  "or_empty None = []"
| "or_empty (Some s) = (if truthy s then s else [])"

text \<open>Truthiness of a value that is \<open>null\<close>/\<open>undefined\<close> or a string, as in \<open>if (result)\<close>.\<close>

fun truthy_opt :: "string option \<Rightarrow> bool" where
  "truthy_opt None = False"
| "truthy_opt (Some r) = truthy r"

text \<open>
  Numbers: only integers of small magnitude and \<open>NaN\<close> occur (\<open>parseInt\<close> of at most
  two characters, a calendar year, sums and differences of these), so a number is an
  \<open>int\<close> or \<open>NaN\<close>.  Negative zero is identified with zero; the operations used
  below do not distinguish them.
\<close>

datatype jsnum = NaN | Num int

fun js_add :: "jsnum \<Rightarrow> jsnum \<Rightarrow> jsnum" where
  "js_add (Num a) (Num b) = Num (a + b)"
| "js_add _ _ = NaN"

fun js_sub :: "jsnum \<Rightarrow> jsnum \<Rightarrow> jsnum" where
  "js_sub (Num a) (Num b) = Num (a - b)"
| "js_sub _ _ = NaN"

text \<open>\<open>a % b\<close>: the remainder takes the sign of the dividend; \<open>NaN\<close> when \<open>b\<close> is zero.\<close>

fun js_rem :: "jsnum \<Rightarrow> jsnum \<Rightarrow> jsnum" where
  "js_rem (Num a) (Num b) = (if b = 0 then NaN else Num (sgn a * (\<bar>a\<bar> mod \<bar>b\<bar>)))"
| "js_rem _ _ = NaN"

text \<open>\<open>a < b\<close> and \<open>a === b\<close> are false as soon as one side is \<open>NaN\<close>.\<close>

fun js_lt :: "jsnum \<Rightarrow> jsnum \<Rightarrow> bool" where
  "js_lt (Num a) (Num b) = (a < b)"
| "js_lt _ _ = False"

fun js_seq :: "jsnum \<Rightarrow> jsnum \<Rightarrow> bool" where
  "js_seq (Num a) (Num b) = (a = b)"
| "js_seq _ _ = False"

text \<open>White space stripped by \<open>trim\<close> and skipped by \<open>parseInt\<close> (ASCII range).\<close>

definition is_ws :: "char \<Rightarrow> bool" where
  "is_ws c \<longleftrightarrow> c \<in> set [CHR 0x20, CHR 0x09, CHR 0x0A, CHR 0x0B, CHR 0x0C, CHR 0x0D]"

definition trim :: "string \<Rightarrow> string" where
  "trim s = rev (dropWhile is_ws (rev (dropWhile is_ws s)))"

text \<open>
  \<open>parseInt(s)\<close> with no radix argument: leading white space is skipped, an optional
  sign is read, a \<open>0x\<close>/\<open>0X\<close> prefix selects radix 16, and the longest prefix of digits
  of the radix is converted; with no digit the result is \<open>NaN\<close>.
\<close>

definition digit_val :: "char \<Rightarrow> nat option" where
  "digit_val c =
     (let n = (of_char c :: nat) in
      if 48 \<le> n \<and> n \<le> 57 then Some (n - 48)
      else if 97 \<le> n \<and> n \<le> 122 then Some (n - 87)
      else if 65 \<le> n \<and> n \<le> 90 then Some (n - 55)
      else None)"

definition is_digit_of :: "nat \<Rightarrow> char \<Rightarrow> bool" where
  "is_digit_of radix c = (case digit_val c of None \<Rightarrow> False | Some d \<Rightarrow> d < radix)"

definition digits_value :: "nat \<Rightarrow> string \<Rightarrow> nat" where
  "digits_value radix ds = foldl (\<lambda>acc c. acc * radix + (case digit_val c of None \<Rightarrow> 0 | Some d \<Rightarrow> d)) 0 ds"

definition parseInt :: "string \<Rightarrow> jsnum" where
  "parseInt s =
     (let s1 = dropWhile is_ws s;
          neg = (case s1 of [] \<Rightarrow> False | c # _ \<Rightarrow> c = CHR ''-'');
          s2 = (case s1 of [] \<Rightarrow> [] | c # r \<Rightarrow> if c = CHR ''-'' \<or> c = CHR ''+'' then r else s1);
          hex = (case s2 of a # b # _ \<Rightarrow> a = CHR ''0'' \<and> (b = CHR ''x'' \<or> b = CHR ''X'') | _ \<Rightarrow> False);
          radix = (if hex then 16 else 10);
          s3 = (if hex then drop 2 s2 else s2);
          ds = takeWhile (is_digit_of radix) s3
      in if ds = [] then NaN
         else Num ((if neg then - 1 else 1) * int (digits_value radix ds)))"

text \<open>\<open>s.charAt(i)\<close> is the empty string out of range; \<open>s.substring(a, b)\<close> for \<open>a \<le> b\<close>.\<close>

definition charAt :: "string \<Rightarrow> nat \<Rightarrow> string" where
  "charAt s i = take 1 (drop i s)"

definition substring :: "string \<Rightarrow> nat \<Rightarrow> nat \<Rightarrow> string" where
  "substring s a b = take (b - a) (drop a s)"

section \<open>The report form and the template catalogue\<close>

text \<open>
  The \<open>form\<close> state of the component:
  \<^verbatim>\<open>{ name, id, rrn, date, type, indication, findings, impression }\<close>.
\<close>

record form =
  form_name :: string
  form_id :: string
  form_rrn :: string
  form_date :: string
  form_type :: string
  form_indication :: string
  form_findings :: string
  form_impression :: string

record template =
  tpl_normal :: string
  tpl_impression :: string

text \<open>The \<open>TEMPLATES\<close> object of the Firebase revision of the component.\<close>

definition TEMPLATES :: "(string \<times> template) list" where
  "TEMPLATES =
  [(''Abdomen US'',
    \<lparr>tpl_normal =
       ''Liver is appropriate in size with homogeneous echotexture and no focal lesion.\<newline>'' @
       ''Gallbladder is well-distended without wall thickening, stones, or sludge; common duct is not dilated.\<newline>'' @
       ''Pancreas and spleen are unremarkable.\<newline>'' @
       ''Both kidneys are normal in size and echogenicity without hydronephrosis or calculus.'',
     tpl_impression = ''Normal abdominal ultrasound.''\<rparr>),
   (''Kidney-Bladder US'',
    \<lparr>tpl_normal =
       ''Both kidneys demonstrate preserved corticomedullary differentiation with no calculus or hydronephrosis.\<newline>'' @
       ''Ureters are not dilated.\<newline>'' @
       ''Urinary bladder is smoothly contoured without wall thickening or intraluminal debris; post-void residual is minimal if assessed.'',
     tpl_impression = ''Normal renal and bladder ultrasound.''\<rparr>),
   (''Neonatal Spine US'',
    \<lparr>tpl_normal =
       ''Conus medullaris terminates at L1'' @ [CHR 0xE2, CHR 0x80, CHR 0x93] @ ''L2 with a thin, mobile filum.\<newline>'' @
       ''No dorsal dermal sinus, lipoma, or intraspinal mass is identified.\<newline>'' @
       ''Posterior elements are intact without evidence of dysraphism.\<newline>'' @
       ''No abnormal fluid collection in the paraspinal soft tissues.'',
     tpl_impression = ''Normal neonatal spinal canal and cord.''\<rparr>),
   (''Pediatric Neck US'',
    \<lparr>tpl_normal =
       ''Thyroid lobes are normal in size with homogeneous echotexture.\<newline>'' @
       ''Visualized cervical lymph nodes are small with preserved fatty hila and normal vascular pattern.\<newline>'' @
       ''No cystic or vascular neck mass is detected.\<newline>'' @
       ''Salivary glands appear unremarkable.'',
     tpl_impression = ''Normal pediatric neck ultrasound.''\<rparr>),
   (''Neonatal Head US'',
    \<lparr>tpl_normal =
       ''Lateral ventricles are normal in caliber; third and fourth ventricles are not dilated.\<newline>'' @
       ''Germinal matrix at the caudothalamic groove is intact without echogenic focus.\<newline>'' @
       ''Periventricular white matter shows homogeneous echogenicity without cystic change.\<newline>'' @
       ''No evidence of intracranial hemorrhage or ventriculomegaly.'',
     tpl_impression = ''Normal cranial ultrasound for age.''\<rparr>),
   (''Scrotum US'',
    \<lparr>tpl_normal =
       ''Both testes are normal in size with homogeneous echogenicity and symmetric intratesticular flow.\<newline>'' @
       ''Epididymides are unremarkable.\<newline>'' @
       ''No hydrocele, varicocele, or scrotal wall thickening is present.\<newline>'' @
       ''Spermatic cords are intact without twisting.'',
     tpl_impression = ''Normal scrotal ultrasound.''\<rparr>),
   (''Prepubertal Uterus-Ovary US'',
    \<lparr>tpl_normal =
       ''Uterus is tubular and age-appropriate with thin endometrial stripe.\<newline>'' @
       ''Both ovaries are normal in volume with small peripheral follicles; vascularity is symmetric.\<newline>'' @
       ''No adnexal mass or ovarian torsion is identified.\<newline>'' @
       ''No free pelvic fluid.'',
     tpl_impression = ''Normal prepubertal pelvic ultrasound.''\<rparr>),
   (''Appendix US'',
    \<lparr>tpl_normal =
       ''The appendix is fully visualized, compressible, and measures <6 mm in diameter.\<newline>'' @
       ''Wall is not thickened; no periappendiceal fat stranding, fluid collection, or appendicolith is seen.\<newline>'' @
       ''No regional lymphadenopathy or free fluid.'',
     tpl_impression = ''Normal appendix without sonographic evidence of appendicitis.''\<rparr>),
   (''Bowel US'',
    \<lparr>tpl_normal =
       ''Visualized bowel loops show normal wall thickness and preserved peristalsis.\<newline>'' @
       ''No target/donut sign or intussusception is identified.\<newline>'' @
       ''Mesentery is unremarkable without edema or lymphadenopathy.\<newline>'' @
       ''No ascites or focal fluid collection.'',
     tpl_impression = ''Normal bowel ultrasound.''\<rparr>)]"

text \<open>The \<open>TEMPLATES\<close> object of the Gemini revision (\<open>src/App.jsx\<close>).\<close>

definition TEMPLATES_gemini :: "(string \<times> template) list" where
  "TEMPLATES_gemini =
  [(''Abdomen US'',
    \<lparr>tpl_normal =
       ''The liver is normal in size and echotexture. No focal liver lesion is seen.\<newline>'' @
       ''The gallbladder is well-distended without wall thickening or stones.\<newline>'' @
       ''The pancreas and spleen are unremarkable.\<newline>'' @
       ''Both kidneys show normal size and echogenicity without hydronephrosis.'',
     tpl_impression = ''Normal abdominal ultrasound.''\<rparr>),
   (''Thyroid US'',
    \<lparr>tpl_normal =
       ''The thyroid gland is of normal size and homogeneous echotexture.\<newline>'' @
       ''No nodules, cysts, or calcifications are identified.\<newline>'' @
       ''Isthmus thickness is normal.\<newline>'' @
       ''No abnormal cervical lymphadenopathy is observed.'',
     tpl_impression = ''Normal thyroid ultrasound.''\<rparr>),
   (''KUB (Kidney, Ureter, Bladder) US'',
    \<lparr>tpl_normal =
       ''Both kidneys are normal in size, position, and echotexture.\<newline>'' @
       ''Corticomedullary differentiation is well-preserved.\<newline>'' @
       ''No renal calculi or hydronephrosis is seen.\<newline>'' @
       ''The urinary bladder is well-distended with smooth walls.'',
     tpl_impression = ''Normal urinary tract ultrasound.''\<rparr>),
   (''Carotid Doppler US'',
    \<lparr>tpl_normal =
       ''Common, internal, and external carotid arteries show normal caliber and flow velocities.\<newline>'' @
       ''Intima-media thickness (IMT) is within normal limits.\<newline>'' @
       ''No hemodynamically significant stenosis or plaque is identified.'',
     tpl_impression = ''Normal carotid Doppler study.''\<rparr>),
   (''Breast US'',
    \<lparr>tpl_normal =
       ''Bilateral breasts show normal fibroglandular tissue echotexture.\<newline>'' @
       ''No solid or cystic mass is identified.\<newline>'' @
       ''No ductal dilatation or architectural distortion.\<newline>'' @
       ''Axillary lymph nodes are unremarkable.'',
     tpl_impression = ''BI-RADS Category 1: Negative.''\<rparr>),
   (''Musculoskeletal US'',
    \<lparr>tpl_normal =
       ''Examined tendons and ligaments show normal fibrillar pattern and echogenicity.\<newline>'' @
       ''No effusion or synovial thickening in the joint.\<newline>'' @
       ''No muscle tear or mass lesion identified.'',
     tpl_impression = ''Normal musculoskeletal ultrasound.''\<rparr>),
   (''Appendix US'',
    \<lparr>tpl_normal =
       ''The appendix is visualized with a diameter of less than 6mm.\<newline>'' @
       ''It is compressible and shows no surrounding fat stranding or fluid collection.'',
     tpl_impression = ''Normal appendix. No signs of appendicitis.''\<rparr>)]"

text \<open>
  \<open>TEMPLATES[type]?.normal || ''\<close>: a key that is not in the table gives
  \<open>undefined\<close>, and so does a property of \<open>Object.prototype\<close> looked up by its name.
\<close>

definition template_normal :: "(string \<times> template) list \<Rightarrow> string \<Rightarrow> string" where
  "template_normal tbl t = or_empty (map_option tpl_normal (map_of tbl t))"

definition template_impression :: "(string \<times> template) list \<Rightarrow> string \<Rightarrow> string" where
  "template_impression tbl t = or_empty (map_option tpl_impression (map_of tbl t))"

text \<open>
  \<^verbatim>\<open>setForm(prev => ({ ...prev, type, findings: TEMPLATES[type]?.normal || '',
                           impression: TEMPLATES[type]?.impression || '' }))\<close>
\<close>

definition handleTemplate :: "string \<Rightarrow> form \<Rightarrow> form" where
  "handleTemplate t prev =
     prev\<lparr>form_type := t,
          form_findings := template_normal TEMPLATES t,
          form_impression := template_impression TEMPLATES t\<rparr>"

definition handleTemplate_gemini :: "string \<Rightarrow> form \<Rightarrow> form" where
  "handleTemplate_gemini t prev =
     prev\<lparr>form_type := t,
          form_findings := template_normal TEMPLATES_gemini t,
          form_impression := template_impression TEMPLATES_gemini t\<rparr>"

text \<open>
  \<^verbatim>\<open>setForm(prev => ({ ...prev,
       findings: prev.findings ? `${prev.findings}\n\n${text}` : text }))\<close>
\<close>

definition addAbnormalSnippet :: "string \<Rightarrow> form \<Rightarrow> form" where
  "addAbnormalSnippet text prev =
     prev\<lparr>form_findings :=
            (if truthy (form_findings prev)
             then form_findings prev @ ''\<newline>\<newline>'' @ text
             else text)\<rparr>"

text \<open>
  \<open>handleChange\<close>, bound to the inputs named \<open>name\<close>, \<open>id\<close>, \<open>rrn\<close>, \<open>date\<close>,
  \<open>indication\<close>, \<open>findings\<close> and \<open>impression\<close> (the \<open>type\<close> select is bound to
  \<open>handleTemplate\<close>): \<^verbatim>\<open>setForm({ ...form, [e.target.name]: e.target.value })\<close>.
\<close>

datatype field = Name | Id | Rrn | Date | Indication | Findings | Impression

fun handleChange :: "field \<Rightarrow> string \<Rightarrow> form \<Rightarrow> form" where
  "handleChange Name v f = f\<lparr>form_name := v\<rparr>"
| "handleChange Id v f = f\<lparr>form_id := v\<rparr>"
| "handleChange Rrn v f = f\<lparr>form_rrn := v\<rparr>"
| "handleChange Date v f = f\<lparr>form_date := v\<rparr>"
| "handleChange Indication v f = f\<lparr>form_indication := v\<rparr>"
| "handleChange Findings v f = f\<lparr>form_findings := v\<rparr>"
| "handleChange Impression v f = f\<lparr>form_impression := v\<rparr>"

section \<open>Age and sex from the resident registration number\<close>

text \<open>
  The effect that runs whenever \<open>form.rrn\<close> changes.  \<open>today\<close> is \<open>new Date()\<close>:
  \<open>getMonth()\<close> is zero-based, \<open>getDate()\<close> is the day of the month.
\<close>

record today =
  getFullYear :: int
  getMonth :: nat
  getDate :: nat

text \<open>\<open>ageSex\<close>: \<open>age\<close> is the empty string (\<open>None\<close>) or a number; \<open>sex\<close> is a string.\<close>

record age_sex =
  age :: "jsnum option"
  sex :: string

text \<open>\<open>form.rrn.replace(/-/g, '')\<close>\<close>

definition strip_hyphens :: "string \<Rightarrow> string" where
  "strip_hyphens s = filter (\<lambda>c. c \<noteq> CHR ''-'') s"

text \<open>The number of decimal digits of a string.\<close>

definition digit_count :: "string \<Rightarrow> nat" where
  "digit_count s = length (filter (is_digit_of 10) s)"

text \<open>The local constants \<open>digit\<close>, \<open>yearPrefix\<close>, \<open>year\<close>, \<open>month\<close>, \<open>day\<close> of the effect.\<close>

record rrn_locals =
  rrn_digit :: jsnum
  rrn_yearPrefix :: int
  rrn_year :: jsnum
  rrn_month :: jsnum
  rrn_day :: jsnum

definition rrn_locals_of :: "string \<Rightarrow> rrn_locals" where
  "rrn_locals_of rrn =
     (let digit = parseInt (charAt rrn 6);
          yearPrefix = (if js_seq digit (Num 1) \<or> js_seq digit (Num 2)
                           \<or> js_seq digit (Num 5) \<or> js_seq digit (Num 6)
                        then 1900 else 2000)
      in \<lparr>rrn_digit = digit,
          rrn_yearPrefix = yearPrefix,
          rrn_year = js_add (Num yearPrefix) (parseInt (substring rrn 0 2)),
          rrn_month = js_sub (parseInt (substring rrn 2 4)) (Num 1),
          rrn_day = parseInt (substring rrn 4 6)\<rparr>)"

definition rrnCalculation :: "today \<Rightarrow> string \<Rightarrow> age_sex" where
  "rrnCalculation td form_rrn_value =
     (let rrn = strip_hyphens form_rrn_value in
      if length rrn < 7 then \<lparr>age = None, sex = []\<rparr>
      else
        let l = rrn_locals_of rrn;
            m = Num (int (getMonth td));
            d = Num (int (getDate td));
            age0 = js_sub (Num (getFullYear td)) (rrn_year l);
            age1 = (if js_lt m (rrn_month l) \<or> (js_seq m (rrn_month l) \<and> js_lt d (rrn_day l))
                    then js_sub age0 (Num 1) else age0)
        in \<lparr>age = Some age1,
            sex = (if \<not> js_seq (js_rem (rrn_digit l) (Num 2)) (Num 0)
                   then ''Male'' else ''Female'')\<rparr>)"

section \<open>Component state and observable effects\<close>

text \<open>
  The state of the component that the handlers read or write.  \<open>user\<close> is the signed-in
  user's uid or \<open>null\<close>; \<open>dbRef\<close> and \<open>functionsRef\<close> say whether the reference holds a
  Firestore, respectively Functions, instance; \<open>currentId\<close> is a document id or
  \<open>null\<close>; \<open>aiLoading\<close> is \<open>false\<close> (\<open>None\<close>) or a mode name.
\<close>

record app =
  user :: "string option"
  dbRef :: bool
  functionsRef :: bool
  currentId :: "string option"
  form :: form
  aiLoading :: "string option"
  explainModalOpen :: bool
  aiExplanation :: string

text \<open>\<open>data = { ...form, updatedAt: new Date().toISOString() }\<close>\<close>

record doc_data =
  doc_form :: form
  updatedAt :: string

text \<open>The request sent to the callable function: \<open>{ mode, ...payload }\<close>.\<close>

record request =
  req_mode :: "string option"
  req_findings :: "string option"
  req_impression :: "string option"

text \<open>
  A prompt is a fixed instruction text with the report fields spliced in; only the kind of
  prompt and the spliced fields are kept.
\<close>

datatype prompt =
    PolishPrompt string
  | ImpressionPrompt string
  | ExplainPrompt string string

text \<open>
  What a handler does to the outside world, in order: \<open>alert\<close>, \<open>console.error\<close>,
  \<open>addDoc\<close> and \<open>setDoc\<close> on the collection of the user with the given uid, a call of
  the callable function, a \<open>fetch\<close> of the Gemini endpoint, and a \<open>setTimeout\<close> wait
  in milliseconds.
\<close>

datatype event =
    Alert string
  | ConsoleError string
  | AddDoc string doc_data
  | SetDoc string string doc_data
  | CallFunction request
  | Fetch prompt
  | Sleep nat

definition emit :: "event list \<Rightarrow> 'a \<times> event list \<Rightarrow> 'a \<times> event list" where
  "emit evs p = (fst p, evs @ snd p)"

fun is_create :: "event \<Rightarrow> bool" where
  "is_create (AddDoc _ _) = True"
| "is_create _ = False"

fun is_update :: "event \<Rightarrow> bool" where
  "is_update (SetDoc _ _ _) = True"
| "is_update _ = False"

definition gateway_calls :: "event list \<Rightarrow> event list" where
  "gateway_calls evs = filter (\<lambda>e. is_create e \<or> is_update e) evs"

fun is_network :: "event \<Rightarrow> bool" where
  "is_network (CallFunction _) = True"
| "is_network (Fetch _) = True"
| "is_network _ = False"

fun is_sleep :: "event \<Rightarrow> bool" where
  "is_sleep (Sleep _) = True"
| "is_sleep _ = False"

fun sleep_ms :: "event \<Rightarrow> nat" where
  "sleep_ms (Sleep n) = n"
| "sleep_ms _ = 0"

definition network_calls :: "event list \<Rightarrow> event list" where
  "network_calls evs = filter is_network evs"

definition delays :: "event list \<Rightarrow> nat list" where
  "delays evs = map sleep_ms (filter is_sleep evs)"

section \<open>Saving\<close>

text \<open>
  What the store answers to the one call a save makes: the promise resolves (for \<open>addDoc\<close>
  with a reference whose id is given; \<open>setDoc\<close> ignores it) or rejects.
\<close>

datatype store_reply = Resolved string | Rejected string

definition save_create :: "string \<Rightarrow> doc_data \<Rightarrow> store_reply \<Rightarrow> app \<Rightarrow> app \<times> event list" where
  "save_create uid data reply s =
     (case reply of
        Resolved ref_id \<Rightarrow>
          (s\<lparr>currentId := Some ref_id\<rparr>, [AddDoc uid data, Alert ''Report saved successfully.''])
      | Rejected e \<Rightarrow> (s, [AddDoc uid data, ConsoleError e]))"

definition save_update :: "string \<Rightarrow> string \<Rightarrow> doc_data \<Rightarrow> store_reply \<Rightarrow> app \<Rightarrow> app \<times> event list" where
  "save_update uid cid data reply s =
     (case reply of
        Resolved _ \<Rightarrow> (s, [SetDoc uid cid data, Alert ''Report saved successfully.''])
      | Rejected e \<Rightarrow> (s, [SetDoc uid cid data, ConsoleError e]))"

text \<open>
  \<^verbatim>\<open>
  if (!user || !dbRef.current) return;
  if (!form.name) return alert("Patient Name is required.");
  const data = { ...form, updatedAt: new Date().toISOString() };
  try {
    if (currentId) { await setDoc(doc(..., currentId), data, { merge: true }); }
    else { const ref = await addDoc(collection(...), data); setCurrentId(ref.id); }
    alert("Report saved successfully.");
  } catch (e) { console.error("Save failed", e); }
  \<close>
\<close>

definition handleSave :: "string \<Rightarrow> store_reply \<Rightarrow> app \<Rightarrow> app \<times> event list" where
  "handleSave now reply s =
     (case user s of
        None \<Rightarrow> (s, [])
      | Some uid \<Rightarrow>
          if \<not> dbRef s then (s, [])
          else if \<not> truthy (form_name (form s)) then (s, [Alert ''Patient Name is required.''])
          else
            let data = \<lparr>doc_form = form s, updatedAt = now\<rparr> in
            (case currentId s of
               None \<Rightarrow> save_create uid data reply s
             | Some cid \<Rightarrow>
                 if truthy cid then save_update uid cid data reply s
                 else save_create uid data reply s))"

text \<open>
  \<open>handleSave\<close> is an \<open>async\<close> function: it runs up to its \<open>await\<close> when Save is
  clicked and resumes when the store answers.  The first part reads \<open>user\<close>, \<open>form\<close>
  and \<open>currentId\<close> as rendered at the click and issues the store call; the second part
  runs \<open>setCurrentId(ref.id)\<close> (after \<open>addDoc\<close>) and the alert, or the \<open>catch\<close>
  block.  Nothing disables the Save button in between.
\<close>

datatype pending_save = PendingCreate | PendingUpdate

definition handleSave_begin :: "string \<Rightarrow> app \<Rightarrow> pending_save option \<times> event list" where
  "handleSave_begin now s =
     (case user s of
        None \<Rightarrow> (None, [])
      | Some uid \<Rightarrow>
          if \<not> dbRef s then (None, [])
          else if \<not> truthy (form_name (form s)) then (None, [Alert ''Patient Name is required.''])
          else
            let data = \<lparr>doc_form = form s, updatedAt = now\<rparr> in
            (case currentId s of
               None \<Rightarrow> (Some PendingCreate, [AddDoc uid data])
             | Some cid \<Rightarrow>
                 if truthy cid then (Some PendingUpdate, [SetDoc uid cid data])
                 else (Some PendingCreate, [AddDoc uid data])))"

definition handleSave_resume :: "pending_save \<Rightarrow> store_reply \<Rightarrow> app \<Rightarrow> app \<times> event list" where
  "handleSave_resume pending reply s =
     (case reply of
        Resolved ref_id \<Rightarrow>
          ((case pending of
              PendingCreate \<Rightarrow> s\<lparr>currentId := Some ref_id\<rparr>
            | PendingUpdate \<Rightarrow> s),
           [Alert ''Report saved successfully.''])
      | Rejected e \<Rightarrow> (s, [ConsoleError e]))"

section \<open>Loading a saved report\<close>

text \<open>
  A stored document and a history item are objects with string-valued properties: maps
  from property names to strings.  \<open>addDoc(data)\<close> and \<open>setDoc(..., data, {merge: true})\<close>
  with \<open>data = { ...form, updatedAt }\<close> leave a document with these properties.
\<close>

definition stored_fields :: "doc_data \<Rightarrow> (string \<rightharpoonup> string)" where
  "stored_fields d =
     map_of
       [(''name'', form_name (doc_form d)), (''id'', form_id (doc_form d)),
        (''rrn'', form_rrn (doc_form d)), (''date'', form_date (doc_form d)),
        (''type'', form_type (doc_form d)), (''indication'', form_indication (doc_form d)),
        (''findings'', form_findings (doc_form d)),
        (''impression'', form_impression (doc_form d)), (''updatedAt'', updatedAt d)]"

text \<open>
  The snapshot handler turns each document \<open>d\<close> into the history item
  \<^verbatim>\<open>{ id: d.id, ...d.data() }\<close>: the document id is set first and the spread of the
  document's data comes after it, so a property \<open>id\<close> of the data replaces the document
  id.  (The handler then sorts the items by \<open>updatedAt\<close>; the order plays no part in
  which item a click loads.)
\<close>

definition snapshot_item :: "string \<Rightarrow> (string \<rightharpoonup> string) \<Rightarrow> (string \<rightharpoonup> string)" where
  "snapshot_item doc_id data = [''id'' \<mapsto> doc_id] ++ data"

text \<open>
  \<^verbatim>\<open>
  setCurrentId(item.id);
  setForm({ name: item.name || '', id: item.id_num || item.id || '', rrn: item.rrn || '',
            date: item.date || '', type: item.type || '', indication: item.indication || '',
            findings: item.findings || '', impression: item.impression || '' });
  \<close>
  (The handler also closes the sidebar on a narrow window; the sidebar is not part of the
  modelled state.)
\<close>

definition handleLoad :: "(string \<rightharpoonup> string) \<Rightarrow> app \<Rightarrow> app" where
  "handleLoad item s =
     s\<lparr>currentId := item ''id'',
       form :=
         \<lparr>form_name = or_empty (item ''name''),
          form_id = (if truthy_opt (item ''id_num'') then the (item ''id_num'')
                     else or_empty (item ''id'')),
          form_rrn = or_empty (item ''rrn''),
          form_date = or_empty (item ''date''),
          form_type = or_empty (item ''type''),
          form_indication = or_empty (item ''indication''),
          form_findings = or_empty (item ''findings''),
          form_impression = or_empty (item ''impression'')\<rparr>\<rparr>"

section \<open>The AI bridge through the callable function\<close>

text \<open>
  What the callable function answers as the client sees it: a result whose \<open>data.text\<close>
  may be missing, or a rejection with a message (empty when there is none).
\<close>

datatype callable_reply = Returned "string option" | Threw string

text \<open>The \<open>payload\<close> argument: \<open>{ findings }\<close> or \<open>{ findings, impression }\<close>.\<close>

record payload =
  p_findings :: "string option"
  p_impression :: "string option"

text \<open>
  \<^verbatim>\<open>
  if (!functionsRef.current) { alert("AI service unavailable. ..."); return null; }
  try {
    const fn = httpsCallable(functionsRef.current, 'generateReportText');
    const res = await fn({ mode, ...payload });
    return res.data?.text || '';
  } catch (e) {
    console.error(e);
    alert("AI Service Error: " + (e.message || 'Unknown error'));
    return null;
  }
  \<close>
  The result is \<open>null\<close> (\<open>None\<close>) or a string.
\<close>

definition callAiFunction ::
  "bool \<Rightarrow> (request \<Rightarrow> callable_reply) \<Rightarrow> string \<Rightarrow> payload \<Rightarrow> string option \<times> event list" where
  "callAiFunction fref fn mode pl =
     (if \<not> fref
      then (None, [Alert ''AI service unavailable. Check Firebase Functions configuration.''])
      else
        let req = \<lparr>req_mode = Some mode, req_findings = p_findings pl,
                   req_impression = p_impression pl\<rparr> in
        (case fn req of
           Returned t \<Rightarrow> (Some (or_empty t), [CallFunction req])
         | Threw m \<Rightarrow>
             (None, [CallFunction req, ConsoleError m,
                     Alert (''AI Service Error: '' @ (if truthy m then m else ''Unknown error''))])))"

text \<open>
  \<^verbatim>\<open>
  if (!form.findings) return alert("Please enter findings first.");
  setAiLoading('polish');
  const result = await callAiFunction('polish', { findings: form.findings });
  if (result) setForm(prev => ({ ...prev, findings: result }));
  setAiLoading(false);
  \<close>
\<close>

definition handleAiPolish :: "(request \<Rightarrow> callable_reply) \<Rightarrow> app \<Rightarrow> app \<times> event list" where
  "handleAiPolish fn s =
     (if \<not> truthy (form_findings (form s)) then (s, [Alert ''Please enter findings first.''])
      else
        let (result, evs) = callAiFunction (functionsRef s) fn ''polish''
                              \<lparr>p_findings = Some (form_findings (form s)), p_impression = None\<rparr>
        in (s\<lparr>form := (if truthy_opt result
                        then (form s)\<lparr>form_findings := the result\<rparr> else form s),
              aiLoading := None\<rparr>, evs))"

definition handleAiImpression :: "(request \<Rightarrow> callable_reply) \<Rightarrow> app \<Rightarrow> app \<times> event list" where
  "handleAiImpression fn s =
     (if \<not> truthy (form_findings (form s)) then (s, [Alert ''Please enter findings first.''])
      else
        let (result, evs) = callAiFunction (functionsRef s) fn ''impression''
                              \<lparr>p_findings = Some (form_findings (form s)), p_impression = None\<rparr>
        in (s\<lparr>form := (if truthy_opt result
                        then (form s)\<lparr>form_impression := the result\<rparr> else form s),
              aiLoading := None\<rparr>, evs))"

text \<open>
  \<^verbatim>\<open>
  if (!form.findings && !form.impression) return alert("Report is empty.");
  setExplainModalOpen(true);
  setAiExplanation('Generating explanation...');
  setAiLoading('explain');
  const result = await callAiFunction('explain', { findings: ..., impression: ... });
  setAiExplanation(result || "Failed to generate explanation.");
  setAiLoading(false);
  \<close>
\<close>

definition handleAiExplain :: "(request \<Rightarrow> callable_reply) \<Rightarrow> app \<Rightarrow> app \<times> event list" where
  "handleAiExplain fn s =
     (if \<not> truthy (form_findings (form s)) \<and> \<not> truthy (form_impression (form s))
      then (s, [Alert ''Report is empty.''])
      else
        let (result, evs) = callAiFunction (functionsRef s) fn ''explain''
                              \<lparr>p_findings = Some (form_findings (form s)),
                               p_impression = Some (form_impression (form s))\<rparr>
        in (s\<lparr>explainModalOpen := True,
              aiExplanation := (if truthy_opt result then the result
                                else ''Failed to generate explanation.''),
              aiLoading := None\<rparr>, evs))"

section \<open>The callable function\<close>


datatype server_event = ResponsesCreate prompt nat | LoggerError string

fun is_responses_create :: "server_event \<Rightarrow> bool" where
  "is_responses_create (ResponsesCreate _ _) = True"
| "is_responses_create _ = False"

definition openai_calls :: "server_event list \<Rightarrow> server_event list" where
  "openai_calls evs = filter is_responses_create evs"




section \<open>The AI bridge of the Gemini revision\<close>

text \<open>
  What the \<open>i\<close>-th \<open>fetch\<close> of a \<open>callGemini\<close> call meets: a response with
  \<open>response.ok\<close> and a candidate text; a response that is not ok, with its status and the
  message of \<open>data.error\<close> (empty when missing); or an exception raised inside the
  \<open>try\<close> block (a rejected \<open>fetch\<close>, a body that is not JSON or has no candidate),
  with its message.
\<close>

datatype http_reply = HttpOk string | HttpStatus nat string | Thrown string

text \<open>\<open>response.status === 429\<close> on a response that is not ok.\<close>

fun is_rate_limited :: "http_reply \<Rightarrow> bool" where
  "is_rate_limited (HttpStatus st _) = (st = 429)"
| "is_rate_limited _ = False"

definition MAX_RETRIES :: nat where
  "MAX_RETRIES = 3"

text \<open>The \<open>catch\<close> block: \<open>console.error(e)\<close>, and an alert on the last iteration only.\<close>

definition catch_block :: "nat \<Rightarrow> string \<Rightarrow> event list" where
  "catch_block i msg =
     ConsoleError msg # (if i = MAX_RETRIES - 1 then [Alert (''AI Service Error: '' @ msg)] else [])"

text \<open>
  \<^verbatim>\<open>
  for (let i = 0; i < MAX_RETRIES; i++) {
    try {
      const response = await fetch(url, ...);
      const data = await response.json();
      if (response.ok) return data.candidates[0].content.parts[0].text.trim();
      if (response.status !== 429) throw new Error(data.error?.message);
      await new Promise(r => setTimeout(r, 1000 * Math.pow(2, i)));
    } catch (e) {
      console.error(e);
      if (i === MAX_RETRIES - 1) alert("AI Service Error: " + e.message);
    }
  }
  return null;
  \<close>
  The loop from iteration \<open>i\<close> on.
\<close>

function callGemini_from :: "(nat \<Rightarrow> http_reply) \<Rightarrow> prompt \<Rightarrow> nat \<Rightarrow> string option \<times> event list" where
  "callGemini_from svc p i =
     (if i < MAX_RETRIES then
        (case svc i of
           HttpOk text \<Rightarrow> (Some (trim text), [Fetch p])
         | HttpStatus status msg \<Rightarrow>
             if status \<noteq> 429
             then emit (Fetch p # catch_block i msg) (callGemini_from svc p (Suc i))
             else emit [Fetch p, Sleep (1000 * 2 ^ i)] (callGemini_from svc p (Suc i))
         | Thrown msg \<Rightarrow> emit (Fetch p # catch_block i msg) (callGemini_from svc p (Suc i)))
      else (None, []))"
  by pat_completeness auto
termination
  by (relation "measure (\<lambda>(svc, p, i). MAX_RETRIES - i)") (auto simp: MAX_RETRIES_def)

declare callGemini_from.simps [simp del]

definition callGemini :: "(nat \<Rightarrow> http_reply) \<Rightarrow> prompt \<Rightarrow> string option \<times> event list" where
  "callGemini svc p = callGemini_from svc p 0"

text \<open>
  The handlers of the Gemini revision have the guards and the writes of the handlers
  above; the prompt is built in the handler and sent by \<open>callGemini\<close>:
  \<^verbatim>\<open>
  if (!form.findings) return alert("Please enter findings first.");
  setAiLoading('polish');
  const prompt = `... Findings:\n${form.findings}`;
  const result = await callGemini(prompt);
  if (result) setForm(prev => ({ ...prev, findings: result }));
  setAiLoading(false);
  \<close>
\<close>

definition handleAiPolish_gemini :: "(nat \<Rightarrow> http_reply) \<Rightarrow> app \<Rightarrow> app \<times> event list" where
  "handleAiPolish_gemini svc s =
     (if \<not> truthy (form_findings (form s)) then (s, [Alert ''Please enter findings first.''])
      else
        let (result, evs) = callGemini svc (PolishPrompt (form_findings (form s)))
        in (s\<lparr>form := (if truthy_opt result
                        then (form s)\<lparr>form_findings := the result\<rparr> else form s),
              aiLoading := None\<rparr>, evs))"

definition handleAiImpression_gemini :: "(nat \<Rightarrow> http_reply) \<Rightarrow> app \<Rightarrow> app \<times> event list" where
  "handleAiImpression_gemini svc s =
     (if \<not> truthy (form_findings (form s)) then (s, [Alert ''Please enter findings first.''])
      else
        let (result, evs) = callGemini svc (ImpressionPrompt (form_findings (form s)))
        in (s\<lparr>form := (if truthy_opt result
                        then (form s)\<lparr>form_impression := the result\<rparr> else form s),
              aiLoading := None\<rparr>, evs))"


definition handleAiExplain_gemini :: "(nat \<Rightarrow> http_reply) \<Rightarrow> app \<Rightarrow> app \<times> event list" where
  "handleAiExplain_gemini svc s =
     (if \<not> truthy (form_findings (form s)) \<and> \<not> truthy (form_impression (form s))
      then (s, [Alert ''Report is empty.''])
      else
        let (result, evs) = callGemini svc
                              (ExplainPrompt (form_findings (form s)) (form_impression (form s)))
        in (s\<lparr>explainModalOpen := True,
              aiExplanation := (if truthy_opt result then the result
                                else ''Failed to generate explanation.''),
              aiLoading := None\<rparr>, evs))"

section \<open>The handlers as actions on the component state\<close>

text \<open>
  One run of a handler that works on the current report, taken as a whole (for an
  \<open>async\<close> handler: with its continuation).  \<open>handleChange\<close> and \<open>handleSave\<close> are
  the same in both revisions; the other handlers of the Gemini revision are separate
  actions.
\<close>

datatype action =
    Change field string
  | Template string
  | Snippet string
  | Save string store_reply
  | AiPolish "request \<Rightarrow> callable_reply"
  | AiImpression "request \<Rightarrow> callable_reply"
  | AiExplain "request \<Rightarrow> callable_reply"
  | Template_gemini string
  | AiPolish_gemini "nat \<Rightarrow> http_reply"
  | AiImpression_gemini "nat \<Rightarrow> http_reply"
  | AiExplain_gemini "nat \<Rightarrow> http_reply"

fun step :: "action \<Rightarrow> app \<Rightarrow> app \<times> event list" where
  "step (Change fld v) s = (s\<lparr>form := handleChange fld v (form s)\<rparr>, [])"
| "step (Template t) s = (s\<lparr>form := handleTemplate t (form s)\<rparr>, [])"
| "step (Snippet text) s = (s\<lparr>form := addAbnormalSnippet text (form s)\<rparr>, [])"
| "step (Save now reply) s = handleSave now reply s"
| "step (AiPolish fn) s = handleAiPolish fn s"
| "step (AiImpression fn) s = handleAiImpression fn s"
| "step (AiExplain fn) s = handleAiExplain fn s"
| "step (Template_gemini t) s = (s\<lparr>form := handleTemplate_gemini t (form s)\<rparr>, [])"
| "step (AiPolish_gemini svc) s = handleAiPolish_gemini svc s"
| "step (AiImpression_gemini svc) s = handleAiImpression_gemini svc s"
| "step (AiExplain_gemini svc) s = handleAiExplain_gemini svc s"

section \<open>Concrete states used in the examples\<close>

text \<open>The blank form that \<open>handleNew\<close> installs, for a given date string.\<close>

definition blank_form :: "string \<Rightarrow> form" where
  "blank_form d =
     \<lparr>form_name = [], form_id = [], form_rrn = [], form_date = d, form_type = [],
      form_indication = [], form_findings = [], form_impression = []\<rparr>"

definition example_form :: form where
  "example_form =
     \<lparr>form_name = ''Kim'', form_id = ''P-001'', form_rrn = ''880101-1234567'',
      form_date = ''2024-05-01'', form_type = ''Appendix US'',
      form_indication = ''RLQ pain'', form_findings = ''Appendix is normal.'',
      form_impression = []\<rparr>"

text \<open>
  A signed-in component with a store and a fresh report, the same with the patient id left
  empty, and a component in local mode.
\<close>

definition example_app :: app where
  "example_app =
     \<lparr>user = Some ''u1'', dbRef = True, functionsRef = True, currentId = None,
      form = example_form, aiLoading = None, explainModalOpen = False, aiExplanation = []\<rparr>"

definition fresh_app :: app where
  "fresh_app = example_app\<lparr>form := example_form\<lparr>form_id := []\<rparr>\<rparr>"

definition local_mode_app :: app where
  "local_mode_app =
     \<lparr>user = Some ''local'', dbRef = False, functionsRef = False, currentId = None,
      form = blank_form ''2024-05-01'', aiLoading = None, explainModalOpen = False,
      aiExplanation = []\<rparr>"

section \<open>Templates and snippets\<close>

lemma or_empty_Some: "or_empty (Some s) = s"
  by (simp add: truthy_def)

lemma template_normal_lookup:
  "template_normal tbl t = (case map_of tbl t of None \<Rightarrow> [] | Some e \<Rightarrow> tpl_normal e)"
  by (simp add: template_normal_def or_empty_Some del: or_empty.simps(2) split: option.split)

lemma template_impression_lookup:
  "template_impression tbl t = (case map_of tbl t of None \<Rightarrow> [] | Some e \<Rightarrow> tpl_impression e)"
  by (simp add: template_impression_def or_empty_Some del: or_empty.simps(2) split: option.split)

text \<open>
  Claim C6.  When the findings are not empty, adding a snippet gives the old findings,
  a blank line and the snippet text: the length grows by two plus the length of the text
  and the new findings end with the text.  When the findings are empty they become the
  text.  In both cases the old findings are a prefix of the new ones, so nothing that was
  there is lost.
\<close>

theorem addAbnormalSnippet_appends:
  "(form_findings f \<noteq> [] \<longrightarrow>
      form_findings (addAbnormalSnippet text f) = form_findings f @ ''\<newline>\<newline>'' @ text
    \<and> length (form_findings (addAbnormalSnippet text f))
        = length (form_findings f) + 2 + length text
    \<and> suffix text (form_findings (addAbnormalSnippet text f)))
   \<and> (form_findings f = [] \<longrightarrow> form_findings (addAbnormalSnippet text f) = text)
   \<and> prefix (form_findings f) (form_findings (addAbnormalSnippet text f))"
  by (simp add: addAbnormalSnippet_def truthy_def suffix_def)

theorem addAbnormalSnippet_appends_witness:
  "form_findings example_form \<noteq> []
   \<and> form_findings (addAbnormalSnippet ''Free fluid.'' example_form)
       = ''Appendix is normal.\<newline>\<newline>Free fluid.''
   \<and> length (form_findings (addAbnormalSnippet ''Free fluid.'' example_form)) = 19 + 2 + 11
   \<and> form_findings (addAbnormalSnippet ''Free fluid.'' (blank_form ''2024-05-01''))
       = ''Free fluid.''"
  using addAbnormalSnippet_appends [of example_form "''Free fluid.''"]
        addAbnormalSnippet_appends [of "blank_form ''2024-05-01''" "''Free fluid.''"]
  by (simp add: example_form_def blank_form_def)

text \<open>
  Claim C7.  Choosing a template twice in a row gives the same form as choosing it once.
  The findings and the impression after a choice do not depend on what they were before:
  they are the texts stored for the exam type, or empty when the type has no entry.
  This holds for the template table of either revision.
\<close>

theorem handleTemplate_idempotent:
  "handleTemplate t (handleTemplate t f) = handleTemplate t f
   \<and> form_findings (handleTemplate t f)
       = (case map_of TEMPLATES t of None \<Rightarrow> [] | Some e \<Rightarrow> tpl_normal e)
   \<and> form_impression (handleTemplate t f)
       = (case map_of TEMPLATES t of None \<Rightarrow> [] | Some e \<Rightarrow> tpl_impression e)
   \<and> handleTemplate_gemini t (handleTemplate_gemini t f) = handleTemplate_gemini t f
   \<and> form_findings (handleTemplate_gemini t f)
       = (case map_of TEMPLATES_gemini t of None \<Rightarrow> [] | Some e \<Rightarrow> tpl_normal e)
   \<and> form_impression (handleTemplate_gemini t f)
       = (case map_of TEMPLATES_gemini t of None \<Rightarrow> [] | Some e \<Rightarrow> tpl_impression e)"
  by (simp add: handleTemplate_def handleTemplate_gemini_def
                template_normal_lookup template_impression_lookup)

text \<open>
  Claim C9.  Choosing a template leaves the name, the patient id, the registration
  number, the date and the clinical indication as they were.  Adding a snippet leaves
  every field other than the findings as it was.  Neither changes any other part of the
  component state, nor the age and sex derived from the registration number.
\<close>

theorem template_and_snippet_frame:
  "form_name (handleTemplate t f) = form_name f
   \<and> form_id (handleTemplate t f) = form_id f
   \<and> form_rrn (handleTemplate t f) = form_rrn f
   \<and> form_date (handleTemplate t f) = form_date f
   \<and> form_indication (handleTemplate t f) = form_indication f
   \<and> form_name (handleTemplate_gemini t f) = form_name f
   \<and> form_id (handleTemplate_gemini t f) = form_id f
   \<and> form_rrn (handleTemplate_gemini t f) = form_rrn f
   \<and> form_date (handleTemplate_gemini t f) = form_date f
   \<and> form_indication (handleTemplate_gemini t f) = form_indication f
   \<and> addAbnormalSnippet text f = f\<lparr>form_findings := form_findings (addAbnormalSnippet text f)\<rparr>
   \<and> fst (step (Template t) s) = s\<lparr>form := handleTemplate t (form s)\<rparr>
   \<and> fst (step (Snippet text) s) = s\<lparr>form := addAbnormalSnippet text (form s)\<rparr>
   \<and> snd (step (Template t) s) = [] \<and> snd (step (Snippet text) s) = []
   \<and> rrnCalculation td (form_rrn (handleTemplate t f)) = rrnCalculation td (form_rrn f)
   \<and> rrnCalculation td (form_rrn (addAbnormalSnippet text f)) = rrnCalculation td (form_rrn f)"
  by (simp add: handleTemplate_def handleTemplate_gemini_def addAbnormalSnippet_def)

section \<open>Age and sex\<close>

lemmas rrn_simps = parseInt_def charAt_def substring_def digit_val_def is_digit_of_def
  digits_value_def is_ws_def strip_hyphens_def rrn_locals_of_def rrnCalculation_def Let_def

lemma strip_hyphens_digits:
  "\<forall>c \<in> set r. is_digit_of 10 c \<or> c = CHR ''-'' \<Longrightarrow>
   strip_hyphens r = filter (is_digit_of 10) r"
  unfolding strip_hyphens_def
  by (rule filter_cong) (auto simp: is_digit_of_def digit_val_def)

text \<open>
  Claim C2, as the code has it.  The effect removes hyphens only and compares the length
  of what is left with 7.  So the age is empty and the sex is the empty string whenever
  fewer than 7 characters remain after the hyphens are removed; in particular whenever
  the input is made of digits and hyphens only and has fewer than 7 digits.  The function
  is total: no input makes it fail.
\<close>

theorem rrnCalculation_short:
  "(length (strip_hyphens r) < 7 \<longrightarrow> rrnCalculation td r = \<lparr>age = None, sex = []\<rparr>)
   \<and> ((\<forall>c \<in> set r. is_digit_of 10 c \<or> c = CHR ''-'') \<and> digit_count r < 7
        \<longrightarrow> rrnCalculation td r = \<lparr>age = None, sex = []\<rparr>)"
  by (auto simp: strip_hyphens_digits digit_count_def rrnCalculation_def)

theorem rrnCalculation_short_witness:
  "length (strip_hyphens ''8801-01'') < 7
   \<and> list_all (\<lambda>c. is_digit_of 10 c \<or> c = CHR ''-'') ''8801-01''
   \<and> digit_count ''8801-01'' < 7
   \<and> rrnCalculation \<lparr>getFullYear = 2026, getMonth = 10, getDate = 3\<rparr> ''8801-01''
       = \<lparr>age = None, sex = []\<rparr>"
  using rrnCalculation_short
          [of "''8801-01''" "\<lparr>getFullYear = 2026, getMonth = 10, getDate = 3\<rparr>"]
  by (simp add: strip_hyphens_def digit_count_def is_digit_of_def digit_val_def)

text \<open>
  The claim as the specification words it fails when the separator is not a hyphen: the
  input \<open>8801 01\<close> has six digits, yet seven characters remain, and the effect reads
  a birth date (1988, month index 0, day 0) and the sex from them.
\<close>

theorem rrnCalculation_short_counterexample:
  "digit_count ''8801 01'' < 7
   \<and> rrnCalculation \<lparr>getFullYear = 2026, getMonth = 10, getDate = 3\<rparr> ''8801 01''
       = \<lparr>age = Some (Num 38), sex = ''Male''\<rparr>"
  by (simp add: rrn_simps digit_count_def)

text \<open>
  Claim C5.  For \<open>880101-1234567\<close> the seventh digit is 1, the century is 1900, the
  birth year 1988, the month index 0 and the day 1; the sex is Male; and on every real
  date (the day of the month is at least 1) the age is the current year minus 1988, with
  no decrement.
\<close>

theorem rrnCalculation_880101:
  "1 \<le> getDate td \<Longrightarrow>
   strip_hyphens ''880101-1234567'' = ''8801011234567''
   \<and> rrn_locals_of (strip_hyphens ''880101-1234567'')
       = \<lparr>rrn_digit = Num 1, rrn_yearPrefix = 1900, rrn_year = Num 1988,
          rrn_month = Num 0, rrn_day = Num 1\<rparr>
   \<and> rrnCalculation td ''880101-1234567''
       = \<lparr>age = Some (Num (getFullYear td - 1988)), sex = ''Male''\<rparr>"
  by (simp add: rrn_simps)

theorem rrnCalculation_880101_witness:
  "1 \<le> getDate \<lparr>getFullYear = 2026, getMonth = 0, getDate = 1\<rparr>
   \<and> rrnCalculation \<lparr>getFullYear = 2026, getMonth = 0, getDate = 1\<rparr> ''880101-1234567''
       = \<lparr>age = Some (Num 38), sex = ''Male''\<rparr>"
  using rrnCalculation_880101 [of "\<lparr>getFullYear = 2026, getMonth = 0, getDate = 1\<rparr>"]
  by simp

section \<open>Saving a report\<close>

text \<open>
  Claim C3, as the code has it.  With an empty name a save leaves the component state as
  it was and calls neither \<open>addDoc\<close> nor \<open>setDoc\<close>.  It reports "Patient Name is
  required." when a user is signed in and the store is connected; otherwise the earlier
  guard returns first and nothing is reported.
\<close>

theorem handleSave_empty_name:
  "form_name (form s) = [] \<Longrightarrow>
     fst (handleSave now reply s) = s
   \<and> gateway_calls (snd (handleSave now reply s)) = []
   \<and> snd (handleSave now reply s)
       = (if user s \<noteq> None \<and> dbRef s then [Alert ''Patient Name is required.''] else [])"
  by (simp add: handleSave_def truthy_def gateway_calls_def split: option.split)

theorem handleSave_empty_name_witness:
  "form_name (form (example_app\<lparr>form := blank_form ''2024-05-01''\<rparr>)) = []
   \<and> handleSave ''2024-05-01T09:00:00.000Z'' (Resolved ''doc1'')
        (example_app\<lparr>form := blank_form ''2024-05-01''\<rparr>)
       = (example_app\<lparr>form := blank_form ''2024-05-01''\<rparr>, [Alert ''Patient Name is required.''])"
  using handleSave_empty_name
          [of "example_app\<lparr>form := blank_form ''2024-05-01''\<rparr>"
              "''2024-05-01T09:00:00.000Z''" "Resolved ''doc1''"]
  by (simp add: example_app_def blank_form_def prod_eq_iff)

text \<open>
  In local mode (no Firebase configuration: a user, but no store) a save with an empty
  name returns at the first guard: there is no validation message at all.
\<close>

theorem handleSave_empty_name_counterexample:
  "form_name (form local_mode_app) = []
   \<and> handleSave ''2024-05-01T09:00:00.000Z'' (Resolved ''doc1'') local_mode_app
       = (local_mode_app, [])"
  by (simp add: handleSave_def local_mode_app_def blank_form_def)

section \<open>The explain mode\<close>

text \<open>
  Claim C10.  Whatever the service answers, \<open>handleAiExplain\<close> changes nothing but the
  modal flag, the explanation text and the loading flag: the form (findings and
  impression included), the current id and the references are as before.  This holds in
  both revisions.  A non-empty answer ends up in the explanation text; after a failure
  the explanation text is the fixed failure message.
\<close>

theorem handleAiExplain_frame:
  "fst (handleAiExplain fn s)
     = s\<lparr>explainModalOpen := explainModalOpen (fst (handleAiExplain fn s)),
          aiExplanation := aiExplanation (fst (handleAiExplain fn s)),
          aiLoading := aiLoading (fst (handleAiExplain fn s))\<rparr>
   \<and> form (fst (handleAiExplain fn s)) = form s
   \<and> fst (handleAiExplain_gemini svc s)
     = s\<lparr>explainModalOpen := explainModalOpen (fst (handleAiExplain_gemini svc s)),
          aiExplanation := aiExplanation (fst (handleAiExplain_gemini svc s)),
          aiLoading := aiLoading (fst (handleAiExplain_gemini svc s))\<rparr>
   \<and> form (fst (handleAiExplain_gemini svc s)) = form s
   \<and> ((truthy (form_findings (form s)) \<or> truthy (form_impression (form s)))
        \<and> functionsRef s \<and> truthy r \<longrightarrow>
        aiExplanation (fst (handleAiExplain (\<lambda>_. Returned (Some r)) s)) = r
        \<and> aiExplanation (fst (handleAiExplain (\<lambda>_. Threw m) s))
            = ''Failed to generate explanation.'')"
  by (auto simp: handleAiExplain_def handleAiExplain_gemini_def callAiFunction_def
           split: prod.split)

theorem handleAiExplain_frame_witness:
  "(truthy (form_findings (form example_app)) \<or> truthy (form_impression (form example_app)))
   \<and> functionsRef example_app \<and> truthy ''No worries.''
   \<and> aiExplanation (fst (handleAiExplain (\<lambda>_. Returned (Some ''No worries.'')) example_app))
       = ''No worries.''
   \<and> aiExplanation (fst (handleAiExplain (\<lambda>_. Threw ''INTERNAL'') example_app))
       = ''Failed to generate explanation.''
   \<and> form (fst (handleAiExplain (\<lambda>_. Returned (Some ''No worries.'')) example_app))
       = example_form
   \<and> form (fst (handleAiExplain_gemini (\<lambda>_. HttpOk ''No worries.'') example_app))
       = example_form"
  using handleAiExplain_frame
          [where fn = "\<lambda>_. Returned (Some ''No worries.'')" and s = example_app
             and svc = "\<lambda>_. HttpOk ''No worries.''" and r = "''No worries.''"
             and m = "''INTERNAL''"]
  by (simp add: example_app_def example_form_def truthy_def)

section \<open>Required fields of a generation request\<close>




section \<open>Retrying a generation request\<close>

lemma network_calls_emit:
  "network_calls (snd (emit evs p)) = network_calls evs @ network_calls (snd p)"
  by (simp add: emit_def network_calls_def)

lemma delays_emit: "delays (snd (emit evs p)) = delays evs @ delays (snd p)"
  by (simp add: emit_def delays_def)

lemma fst_emit: "fst (emit evs p) = fst p"
  by (simp add: emit_def)

lemma network_calls_catch: "network_calls (catch_block i m) = []"
  by (simp add: catch_block_def network_calls_def)

lemma delays_catch: "delays (catch_block i m) = []"
  by (simp add: catch_block_def delays_def)

lemma network_calls_Cons:
  "network_calls (e # evs) = (if is_network e then e # network_calls evs else network_calls evs)"
  by (simp add: network_calls_def)

lemma network_calls_Nil: "network_calls [] = []"
  by (simp add: network_calls_def)

lemma delays_Cons:
  "delays (e # evs) = (if is_sleep e then sleep_ms e # delays evs else delays evs)"
  by (simp add: delays_def)

lemma delays_Nil: "delays [] = []"
  by (simp add: delays_def)

lemmas event_simps = network_calls_emit delays_emit fst_emit network_calls_catch delays_catch
  network_calls_Cons network_calls_Nil delays_Cons delays_Nil

lemma callGemini_from_done:
  "\<not> i < MAX_RETRIES \<Longrightarrow> callGemini_from svc p i = (None, [])"
  by (simp add: callGemini_from.simps [of svc p i])

lemma callGemini_from_ok:
  "i < MAX_RETRIES \<Longrightarrow> svc i = HttpOk t \<Longrightarrow>
   callGemini_from svc p i = (Some (trim t), [Fetch p])"
  by (simp add: callGemini_from.simps [of svc p i])

lemma callGemini_from_429:
  "i < MAX_RETRIES \<Longrightarrow> svc i = HttpStatus 429 m \<Longrightarrow>
   callGemini_from svc p i
     = emit [Fetch p, Sleep (1000 * 2 ^ i)] (callGemini_from svc p (Suc i))"
  by (simp add: callGemini_from.simps [of svc p i])

lemma callGemini_from_status:
  "i < MAX_RETRIES \<Longrightarrow> svc i = HttpStatus st m \<Longrightarrow> st \<noteq> 429 \<Longrightarrow>
   callGemini_from svc p i = emit (Fetch p # catch_block i m) (callGemini_from svc p (Suc i))"
  by (simp add: callGemini_from.simps [of svc p i])

lemma callGemini_from_thrown:
  "i < MAX_RETRIES \<Longrightarrow> svc i = Thrown m \<Longrightarrow>
   callGemini_from svc p i = emit (Fetch p # catch_block i m) (callGemini_from svc p (Suc i))"
  by (simp add: callGemini_from.simps [of svc p i])

lemmas callGemini_from_unfold = callGemini_from_done callGemini_from_ok callGemini_from_429
  callGemini_from_status callGemini_from_thrown

lemma fetch_bound:
  "length (network_calls (snd (callGemini_from svc p i))) \<le> MAX_RETRIES - i"
proof (induction svc p i rule: callGemini_from.induct)
  case (1 svc p i)
  show ?case
  proof (cases "i < MAX_RETRIES")
    case False
    then show ?thesis by (simp add: callGemini_from_done event_simps)
  next
    case True
    show ?thesis
    proof (cases "svc i")
      case (HttpOk t)
      with True show ?thesis by (simp add: callGemini_from_ok event_simps)
    next
      case (HttpStatus st m)
      with True "1.IH"(1,2) [OF True HttpStatus] show ?thesis
        by (cases "st = 429") (simp_all add: callGemini_from_unfold event_simps)
    next
      case (Thrown m)
      with True "1.IH"(3) [OF True Thrown] show ?thesis
        by (simp add: callGemini_from_thrown event_simps)
    qed
  qed
qed

lemma delays_shape:
  "sorted_wrt (<) (delays (snd (callGemini_from svc p i)))
   \<and> (\<forall>d \<in> set (delays (snd (callGemini_from svc p i))).
         \<exists>j. i \<le> j \<and> j < MAX_RETRIES \<and> d = 1000 * 2 ^ j)"
proof (induction svc p i rule: callGemini_from.induct)
  case (1 svc p i)
  show ?case
  proof (cases "i < MAX_RETRIES")
    case False
    then show ?thesis by (simp add: callGemini_from_done event_simps)
  next
    case True
    show ?thesis
    proof (cases "svc i")
      case (HttpOk t)
      with True show ?thesis by (simp add: callGemini_from_ok event_simps)
    next
      case (HttpStatus st m)
      show ?thesis
      proof (cases "st = 429")
        case True
        note r = "1.IH"(2) [OF \<open>i < MAX_RETRIES\<close> HttpStatus]
        have later: "\<forall>d \<in> set (delays (snd (callGemini_from svc p (Suc i)))). 1000 * 2 ^ i < d"
        proof
          fix d assume "d \<in> set (delays (snd (callGemini_from svc p (Suc i))))"
          with r True obtain j where j: "Suc i \<le> j" "d = 1000 * 2 ^ j" by auto
          have "(2::nat) ^ i < 2 ^ j" using j(1) by (simp add: Suc_le_lessD)
          then show "1000 * 2 ^ i < d" using j(2) by simp
        qed
        have mem: "\<forall>d \<in> set (delays (snd (callGemini_from svc p (Suc i)))).
            \<exists>j. i \<le> j \<and> j < MAX_RETRIES \<and> d = 1000 * 2 ^ j"
          using r True by (auto intro: Suc_leD)
        show ?thesis
          using \<open>i < MAX_RETRIES\<close> HttpStatus True r later mem
          by (auto simp: callGemini_from_429 event_simps)
      next
        case False
        note r = "1.IH"(1) [OF \<open>i < MAX_RETRIES\<close> HttpStatus]
        show ?thesis
          using \<open>i < MAX_RETRIES\<close> HttpStatus False r
          by (auto simp: callGemini_from_status event_simps intro: Suc_leD)
      qed
    next
      case (Thrown m)
      with True "1.IH"(3) [OF True Thrown] show ?thesis
        by (auto simp: callGemini_from_thrown event_simps intro: Suc_leD)
    qed
  qed
qed

lemma rate_limited_then_ok:
  "\<forall>j<k. \<exists>m. svc (i + j) = HttpStatus 429 m \<Longrightarrow> svc (i + k) = HttpOk t \<Longrightarrow>
   i + k < MAX_RETRIES \<Longrightarrow>
   callGemini_from svc p i
     = (Some (trim t), concat (map (\<lambda>j. [Fetch p, Sleep (1000 * 2 ^ (i + j))]) [0..<k]) @ [Fetch p])"
proof (induction k arbitrary: i)
  case 0
  then show ?case by (simp add: callGemini_from_ok)
next
  case (Suc k)
  from Suc.prems(1) obtain m where m: "svc i = HttpStatus 429 m" by force
  have rest: "\<forall>j<k. \<exists>m. svc (Suc i + j) = HttpStatus 429 m"
    using Suc.prems(1) by (metis Suc_less_eq add_Suc_shift)
  have ih: "callGemini_from svc p (Suc i)
     = (Some (trim t),
        concat (map (\<lambda>j. [Fetch p, Sleep (1000 * 2 ^ (Suc i + j))]) [0..<k]) @ [Fetch p])"
    using Suc.IH [OF rest] Suc.prems(2,3) by simp
  have shift: "map (\<lambda>j. [Fetch p, Sleep (1000 * 2 ^ (i + j))]) [0..<Suc k]
      = [Fetch p, Sleep (1000 * 2 ^ i)] # map (\<lambda>j. [Fetch p, Sleep (1000 * 2 ^ (Suc i + j))]) [0..<k]"
    by (simp add: upt_conv_Cons map_Suc_upt [symmetric] del: upt_Suc)
  show ?case
    using Suc.prems(3) m ih unfolding shift
    by (simp add: callGemini_from_429 emit_def)
qed

lemma all_fail:
  "\<forall>j. i \<le> j \<and> j < MAX_RETRIES \<longrightarrow> (\<forall>t. svc j \<noteq> HttpOk t) \<Longrightarrow>
   fst (callGemini_from svc p i) = None
   \<and> length (network_calls (snd (callGemini_from svc p i))) = MAX_RETRIES - i"
proof (induction svc p i rule: callGemini_from.induct)
  case (1 svc p i)
  show ?case
  proof (cases "i < MAX_RETRIES")
    case False
    then show ?thesis by (simp add: callGemini_from_done event_simps)
  next
    case True
    have later: "\<forall>j. Suc i \<le> j \<and> j < MAX_RETRIES \<longrightarrow> (\<forall>t. svc j \<noteq> HttpOk t)"
      using "1.prems" by (simp add: Suc_leD)
    show ?thesis
    proof (cases "svc i")
      case (HttpOk t)
      with True "1.prems" show ?thesis by auto
    next
      case (HttpStatus st m)
      with True "1.IH"(1,2) [OF True HttpStatus _ later] show ?thesis
        by (cases "st = 429") (simp_all add: callGemini_from_unfold event_simps Suc_diff_Suc)
    next
      case (Thrown m)
      with True "1.IH"(3) [OF True Thrown later] show ?thesis
        by (simp add: callGemini_from_thrown event_simps Suc_diff_Suc)
    qed
  qed
qed


lemma set_snd_emit: "set (snd (emit evs p)) = set evs \<union> set (snd p)"
  by (simp add: emit_def)

lemma last_failure_reported:
  "i < MAX_RETRIES \<Longrightarrow>
   \<forall>j. i \<le> j \<and> j < MAX_RETRIES \<longrightarrow> (\<forall>t. svc j \<noteq> HttpOk t) \<Longrightarrow>
   svc (MAX_RETRIES - 1) = Thrown m \<or> (\<exists>st. st \<noteq> 429 \<and> svc (MAX_RETRIES - 1) = HttpStatus st m) \<Longrightarrow>
   Alert (''AI Service Error: '' @ m) \<in> set (snd (callGemini_from svc p i))"
proof (induction svc p i rule: callGemini_from.induct)
  case (1 svc p i)
  note lt = \<open>i < MAX_RETRIES\<close>
  have later: "\<forall>j. Suc i \<le> j \<and> j < MAX_RETRIES \<longrightarrow> (\<forall>t. svc j \<noteq> HttpOk t)"
    using "1.prems"(2) by (simp add: Suc_leD)
  show ?case
  proof (cases "Suc i < MAX_RETRIES")
    case True
    show ?thesis
    proof (cases "svc i")
      case (HttpOk t)
      with lt "1.prems"(2) show ?thesis by auto
    next
      case (HttpStatus st m')
      with lt "1.IH"(1,2) [OF lt HttpStatus _ True later "1.prems"(3)] show ?thesis
        by (cases "st = 429") (simp_all add: callGemini_from_unfold set_snd_emit)
    next
      case (Thrown m')
      with lt "1.IH"(3) [OF lt Thrown True later "1.prems"(3)] show ?thesis
        by (simp add: callGemini_from_thrown set_snd_emit)
    qed
  next
    case False
    with lt have i: "i = MAX_RETRIES - 1" by simp
    have alert: "Alert (''AI Service Error: '' @ m) \<in> set (catch_block i m)"
      using i by (simp add: catch_block_def)
    from "1.prems"(3) show ?thesis
    proof
      assume "svc (MAX_RETRIES - 1) = Thrown m"
      then have "svc i = Thrown m" using i by simp
      then have "callGemini_from svc p i
          = emit (Fetch p # catch_block i m) (callGemini_from svc p (Suc i))"
        using lt by (simp add: callGemini_from_thrown [of i svc m p])
      with alert show ?thesis by (simp add: set_snd_emit)
    next
      assume "\<exists>st. st \<noteq> 429 \<and> svc (MAX_RETRIES - 1) = HttpStatus st m"
      then obtain st where st: "svc i = HttpStatus st m" "st \<noteq> 429" using i by auto
      have "callGemini_from svc p i
          = emit (Fetch p # catch_block i m) (callGemini_from svc p (Suc i))"
        using lt st by (simp add: callGemini_from_status [of i svc st m p])
      with alert show ?thesis by (simp add: set_snd_emit)
    qed
  qed
qed

lemma network_calls_append: "network_calls (a @ b) = network_calls a @ network_calls b"
  by (simp add: network_calls_def)

lemma delays_append: "delays (a @ b) = delays a @ delays b"
  by (simp add: delays_def)

lemma backoff_trace_calls:
  "length (network_calls (concat (map (\<lambda>j. [Fetch p, Sleep (f j)]) js))) = length js"
  by (induction js) (simp_all add: event_simps network_calls_append)

lemma backoff_trace_delays:
  "delays (concat (map (\<lambda>j. [Fetch p, Sleep (f j)]) js)) = map f js"
  by (induction js) (simp_all add: event_simps delays_append)

lemma is_rate_limited_iff: "is_rate_limited r \<longleftrightarrow> (\<exists>m. r = HttpStatus 429 m)"
  by (cases r) auto

lemma first_ok:
  "\<forall>j<k. \<forall>t. svc (i + j) \<noteq> HttpOk t \<Longrightarrow> svc (i + k) = HttpOk t \<Longrightarrow> i + k < MAX_RETRIES \<Longrightarrow>
   fst (callGemini_from svc p i) = Some (trim t)
   \<and> length (network_calls (snd (callGemini_from svc p i))) = Suc k"
proof (induction k arbitrary: i)
  case 0
  then show ?case by (simp add: callGemini_from_ok event_simps)
next
  case (Suc k)
  have lt: "i < MAX_RETRIES" using Suc.prems(3) by simp
  have now: "\<forall>t. svc i \<noteq> HttpOk t" using Suc.prems(1) by force
  have rest: "\<forall>j<k. \<forall>t. svc (Suc i + j) \<noteq> HttpOk t"
    using Suc.prems(1) by (metis Suc_less_eq add_Suc_shift)
  have ih: "fst (callGemini_from svc p (Suc i)) = Some (trim t)
      \<and> length (network_calls (snd (callGemini_from svc p (Suc i)))) = Suc k"
    using Suc.IH [OF rest] Suc.prems(2,3) by simp
  show ?case
  proof (cases "svc i")
    case (HttpOk t')
    with now show ?thesis by simp
  next
    case (HttpStatus st m)
    with lt ih show ?thesis
      by (cases "st = 429") (simp_all add: callGemini_from_unfold event_simps)
  next
    case (Thrown m)
    with lt ih show ?thesis by (simp add: callGemini_from_thrown event_simps)
  qed
qed

lemma delays_exact:
  "delays (snd (callGemini_from svc p i))
     = map (\<lambda>j. 1000 * 2 ^ j)
         (filter (\<lambda>j. is_rate_limited (svc j))
            [i..<i + length (network_calls (snd (callGemini_from svc p i)))])"
proof (induction svc p i rule: callGemini_from.induct)
  case (1 svc p i)
  show ?case
  proof (cases "i < MAX_RETRIES")
    case False
    then show ?thesis by (simp add: callGemini_from_done event_simps)
  next
    case True
    show ?thesis
    proof (cases "svc i")
      case (HttpOk t)
      with True show ?thesis by (simp add: callGemini_from_ok event_simps)
    next
      case (HttpStatus st m)
      with True "1.IH"(1,2) [OF True HttpStatus] show ?thesis
        by (cases "st = 429")
           (simp_all add: callGemini_from_unfold event_simps upt_conv_Cons del: upt_Suc)
    next
      case (Thrown m)
      with True "1.IH"(3) [OF True Thrown] show ?thesis
        by (simp add: callGemini_from_thrown event_simps upt_conv_Cons del: upt_Suc)
    qed
  qed
qed

text \<open>
  Claim C1, as the code has it.  \<open>callGemini\<close> makes at most \<open>MAX_RETRIES\<close> calls.
  It waits exactly after the attempts that met a rate limit (status 429), for
  \<open>1000 * 2 ^ i\<close> milliseconds after attempt \<open>i\<close>, so the waits double from the base
  and are strictly increasing.  The first ok response within the attempts is returned,
  trimmed, whatever the earlier failures were; after \<open>k\<close> rate-limit failures followed
  by a success that is \<open>k + 1\<close> calls with the waits \<open>1000, 2000, ...\<close> between them.
  When no attempt succeeds the result is \<open>null\<close> after \<open>MAX_RETRIES\<close> calls, and when
  the last attempt failed otherwise than by a rate limit its reason is reported.
  \<open>callAiFunction\<close> of the Firebase revision makes at most one call and never waits;
  a rejected call gives \<open>null\<close> and a report of the reason.
\<close>

theorem callGemini_retry_policy:
  "length (network_calls (snd (callGemini svc p))) \<le> MAX_RETRIES
   \<and> sorted_wrt (<) (delays (snd (callGemini svc p)))
   \<and> delays (snd (callGemini svc p))
       = map (\<lambda>j. 1000 * 2 ^ j)
           (filter (\<lambda>j. is_rate_limited (svc j))
              [0..<length (network_calls (snd (callGemini svc p)))])
   \<and> (k < MAX_RETRIES \<and> (\<forall>j<k. \<forall>t'. svc j \<noteq> HttpOk t') \<and> svc k = HttpOk t \<longrightarrow>
        fst (callGemini svc p) = Some (trim t)
        \<and> length (network_calls (snd (callGemini svc p))) = Suc k)
   \<and> (k < MAX_RETRIES \<and> (\<forall>j<k. is_rate_limited (svc j)) \<and> svc k = HttpOk t \<longrightarrow>
        delays (snd (callGemini svc p)) = map (\<lambda>j. 1000 * 2 ^ j) [0..<k])
   \<and> ((\<forall>j<MAX_RETRIES. \<forall>t'. svc j \<noteq> HttpOk t') \<longrightarrow>
        fst (callGemini svc p) = None
        \<and> length (network_calls (snd (callGemini svc p))) = MAX_RETRIES)
   \<and> ((\<forall>j<MAX_RETRIES. \<forall>t'. svc j \<noteq> HttpOk t')
        \<and> (svc (MAX_RETRIES - 1) = Thrown e
            \<or> (\<exists>st. st \<noteq> 429 \<and> svc (MAX_RETRIES - 1) = HttpStatus st e)) \<longrightarrow>
        Alert (''AI Service Error: '' @ e) \<in> set (snd (callGemini svc p)))
   \<and> length (network_calls (snd (callAiFunction fref fn mode pl))) \<le> 1
   \<and> delays (snd (callAiFunction fref fn mode pl)) = []
   \<and> (fref \<and> fn \<lparr>req_mode = Some mode, req_findings = p_findings pl,
                   req_impression = p_impression pl\<rparr> = Threw e' \<longrightarrow>
        fst (callAiFunction fref fn mode pl) = None
        \<and> Alert (''AI Service Error: '' @ (if truthy e' then e' else ''Unknown error''))
            \<in> set (snd (callAiFunction fref fn mode pl)))"
proof -
  have a: "length (network_calls (snd (callGemini svc p))) \<le> MAX_RETRIES"
    using fetch_bound [of svc p 0] by (simp add: callGemini_def)
  have b: "sorted_wrt (<) (delays (snd (callGemini svc p)))"
    using delays_shape [of svc p 0] by (simp add: callGemini_def)
  have b': "delays (snd (callGemini svc p))
       = map (\<lambda>j. 1000 * 2 ^ j)
           (filter (\<lambda>j. is_rate_limited (svc j))
              [0..<length (network_calls (snd (callGemini svc p)))])"
    using delays_exact [of svc p 0] by (simp add: callGemini_def)
  have c: "fst (callGemini svc p) = Some (trim t)
        \<and> length (network_calls (snd (callGemini svc p))) = Suc k"
    if "k < MAX_RETRIES" "\<forall>j<k. \<forall>t'. svc j \<noteq> HttpOk t'" "svc k = HttpOk t"
    using first_ok [of k svc 0 t p] that by (simp add: callGemini_def)
  have c': "delays (snd (callGemini svc p)) = map (\<lambda>j. 1000 * 2 ^ j) [0..<k]"
    if "k < MAX_RETRIES" "\<forall>j<k. is_rate_limited (svc j)" "svc k = HttpOk t"
  proof -
    have "\<forall>j<k. \<exists>m. svc (0 + j) = HttpStatus 429 m"
      using that(2) by (simp add: is_rate_limited_iff)
    from rate_limited_then_ok [OF this, of t p] that(1,3) show ?thesis
      by (simp add: callGemini_def delays_append backoff_trace_delays event_simps)
  qed
  have d: "fst (callGemini svc p) = None
        \<and> length (network_calls (snd (callGemini svc p))) = MAX_RETRIES"
    if "\<forall>j<MAX_RETRIES. \<forall>t'. svc j \<noteq> HttpOk t'"
    using all_fail [of 0 svc p] that by (simp add: callGemini_def)
  have e: "Alert (''AI Service Error: '' @ e) \<in> set (snd (callGemini svc p))"
    if "\<forall>j<MAX_RETRIES. \<forall>t'. svc j \<noteq> HttpOk t'"
       "svc (MAX_RETRIES - 1) = Thrown e
            \<or> (\<exists>st. st \<noteq> 429 \<and> svc (MAX_RETRIES - 1) = HttpStatus st e)"
    using last_failure_reported [of 0 svc e p] that by (simp add: callGemini_def MAX_RETRIES_def)
  have f: "length (network_calls (snd (callAiFunction fref fn mode pl))) \<le> 1
      \<and> delays (snd (callAiFunction fref fn mode pl)) = []"
    by (simp add: callAiFunction_def Let_def event_simps split: callable_reply.split)
  have g: "fst (callAiFunction fref fn mode pl) = None
        \<and> Alert (''AI Service Error: '' @ (if truthy e' then e' else ''Unknown error''))
            \<in> set (snd (callAiFunction fref fn mode pl))"
    if "fref" "fn \<lparr>req_mode = Some mode, req_findings = p_findings pl,
                   req_impression = p_impression pl\<rparr> = Threw e'"
    using that by (simp add: callAiFunction_def Let_def)
  show ?thesis using a b b' c c' d e f g by blast
qed

theorem callGemini_retry_policy_witness:
  "(2::nat) < MAX_RETRIES
   \<and> is_rate_limited ((\<lambda>i::nat. if i < 2 then HttpStatus 429 ''quota'' else HttpOk '' Normal. '') 0)
   \<and> is_rate_limited ((\<lambda>i::nat. if i < 2 then HttpStatus 429 ''quota'' else HttpOk '' Normal. '') 1)
   \<and> callGemini (\<lambda>i. if i < 2 then HttpStatus 429 ''quota'' else HttpOk '' Normal. '')
        (PolishPrompt ''x'')
       = (Some ''Normal.'', [Fetch (PolishPrompt ''x''), Sleep 1000, Fetch (PolishPrompt ''x''),
                             Sleep 2000, Fetch (PolishPrompt ''x'')])
   \<and> delays (snd (callGemini
                    (\<lambda>i. if i < 2 then HttpStatus 429 ''quota'' else HttpOk '' Normal. '')
                    (PolishPrompt ''x''))) = [1000, 2000]"
  using callGemini_retry_policy
          [where svc = "\<lambda>i. if i < 2 then HttpStatus 429 ''quota'' else HttpOk '' Normal. ''"
             and p = "PolishPrompt ''x''" and k = 2 and t = "'' Normal. ''" and e = "''boom''"
             and fref = True and fn = "\<lambda>_. Threw ''INTERNAL''" and mode = "''polish''"
             and pl = "\<lparr>p_findings = Some ''x'', p_impression = None\<rparr>"
             and e' = "''INTERNAL''"]
  by (simp add: callGemini_def callGemini_from.simps MAX_RETRIES_def emit_def catch_block_def
        trim_def is_ws_def delays_def)

text \<open>
  The claim as the specification words it fails twice.  A failure that is not a rate
  limit does not end the call: the \<open>catch\<close> block sits inside the loop, so the next
  attempt follows at once and may succeed.  And when every attempt meets a rate limit the
  call returns \<open>null\<close> with no report of any reason.
\<close>

theorem callGemini_retry_policy_counterexample:
  "callGemini (\<lambda>i. if i = 0 then HttpStatus 500 ''boom'' else HttpOk ''done'') (PolishPrompt ''x'')
     = (Some ''done'',
        [Fetch (PolishPrompt ''x''), ConsoleError ''boom'', Fetch (PolishPrompt ''x'')])
   \<and> callGemini (\<lambda>i. HttpStatus 429 ''quota'') (PolishPrompt ''x'')
     = (None, [Fetch (PolishPrompt ''x''), Sleep 1000, Fetch (PolishPrompt ''x''), Sleep 2000,
               Fetch (PolishPrompt ''x''), Sleep 4000])"
  by (simp add: callGemini_def callGemini_from.simps MAX_RETRIES_def emit_def catch_block_def
        trim_def is_ws_def)

section \<open>Create and update across a session\<close>

lemma handleSave_split:
  "handleSave now reply s
     = (case handleSave_begin now s of
          (None, evs) \<Rightarrow> (s, evs)
        | (Some pending, evs) \<Rightarrow> emit evs (handleSave_resume pending reply s))"
  by (simp add: handleSave_def handleSave_begin_def handleSave_resume_def save_create_def
        save_update_def emit_def Let_def split: option.split store_reply.split)

lemma handleSave_with_id:
  "user s = Some uid \<Longrightarrow> dbRef s \<Longrightarrow> truthy (form_name (form s)) \<Longrightarrow>
   currentId s = Some k \<Longrightarrow> truthy k \<Longrightarrow>
   gateway_calls (snd (handleSave now reply s))
     = [SetDoc uid k \<lparr>doc_form = form s, updatedAt = now\<rparr>]
   \<and> currentId (fst (handleSave now reply s)) = Some k"
  by (cases reply) (simp_all add: handleSave_def save_update_def gateway_calls_def)

text \<open>
  Claim C4 does not hold of the code.  A save taken alone does what the claim says
  (\<open>handleSave_with_id\<close>), but the session as a whole does not.

  First session: a fresh report with a name and no patient id is saved; \<open>addDoc\<close>
  answers \<open>doc1\<close>, which becomes the current id.  The snapshot lists the document, the
  user opens it from the history, and saves again.  The history item's \<open>id\<close> is the
  stored patient id (empty), not \<open>doc1\<close>, so the current id is empty after the load
  and the save calls \<open>addDoc\<close> a second time.  With the patient id \<open>P-001\<close> the
  current id becomes \<open>P-001\<close> and the save writes the document of that id.

  Second session: Save is clicked twice on the fresh report before the store answers.
  Both clicks see no current id and both call \<open>addDoc\<close>; the current id ends as the id
  of the second document.
\<close>

theorem save_creates_again:
  "handleSave ''t1'' (Resolved ''doc1'') fresh_app
     = (fresh_app\<lparr>currentId := Some ''doc1''\<rparr>,
        [AddDoc ''u1'' \<lparr>doc_form = form fresh_app, updatedAt = ''t1''\<rparr>,
         Alert ''Report saved successfully.''])
   \<and> handleLoad
         (snapshot_item ''doc1'' (stored_fields \<lparr>doc_form = form fresh_app, updatedAt = ''t1''\<rparr>))
         (fresh_app\<lparr>currentId := Some ''doc1''\<rparr>)
     = fresh_app\<lparr>currentId := Some []\<rparr>
   \<and> handleSave ''t2'' (Resolved ''doc2'') (fresh_app\<lparr>currentId := Some []\<rparr>)
     = (fresh_app\<lparr>currentId := Some ''doc2''\<rparr>,
        [AddDoc ''u1'' \<lparr>doc_form = form fresh_app, updatedAt = ''t2''\<rparr>,
         Alert ''Report saved successfully.''])
   \<and> handleLoad
         (snapshot_item ''doc1'' (stored_fields \<lparr>doc_form = example_form, updatedAt = ''t1''\<rparr>))
         (example_app\<lparr>currentId := Some ''doc1''\<rparr>)
     = example_app\<lparr>currentId := Some ''P-001''\<rparr>
   \<and> gateway_calls
         (snd (handleSave ''t2'' (Resolved []) (example_app\<lparr>currentId := Some ''P-001''\<rparr>)))
     = [SetDoc ''u1'' ''P-001'' \<lparr>doc_form = example_form, updatedAt = ''t2''\<rparr>]
   \<and> handleSave_begin ''t1'' fresh_app
     = (Some PendingCreate, [AddDoc ''u1'' \<lparr>doc_form = form fresh_app, updatedAt = ''t1''\<rparr>])
   \<and> handleSave_begin ''t2'' fresh_app
     = (Some PendingCreate, [AddDoc ''u1'' \<lparr>doc_form = form fresh_app, updatedAt = ''t2''\<rparr>])
   \<and> fst (handleSave_resume PendingCreate (Resolved ''doc2'')
            (fst (handleSave_resume PendingCreate (Resolved ''doc1'') fresh_app)))
     = fresh_app\<lparr>currentId := Some ''doc2''\<rparr>"
  by (simp add: handleSave_def save_create_def save_update_def handleSave_begin_def
        handleSave_resume_def handleLoad_def snapshot_item_def stored_fields_def
        gateway_calls_def fresh_app_def example_app_def example_form_def truthy_def)

end
